theory Spec2Isabelle
  imports Main "HOL-Library.Sublist" "HOL-Library.Char_ord" "HOL-Library.List_Lexorder"
begin

section \<open>Values and the environment of the quote bot\<close>

text \<open>
  The program is \<^verbatim>\<open>src/main.py\<close>: a Telegram bot that keeps its quotes in the file
  \<^verbatim>\<open>quotes.json\<close>. Python text is held as its UTF-8 bytes (\<^typ>\<open>string\<close>); every
  separator and quote character the program looks for is ASCII, so searching the bytes
  finds what searching the code points finds.
\<close>

text \<open>What \<^verbatim>\<open>json.load\<close> can return. An object keeps its members in order; a float is carried
  as its literal, since no function of the program computes with numbers.\<close>

datatype json =
    JNull
  | JBool bool
  | JInt int
  | JFloat string
  | JStr string
  | JArr "json list"
  | JObj "(string \<times> json) list"

text \<open>The exceptions that the modelled code can raise or let through.\<close>

datatype exn =
    FileNotFoundError
  | PermissionError
  | JSONDecodeError
  | UnicodeDecodeError
  | RecursionError
  | ValueError
  | KeyError
  | AttributeError
  | TypeError

text \<open>
  The functions of Python's library whose result is a table or an algorithm outside the
  repository are parameters of the model: \<open>json_load\<close> is \<^verbatim>\<open>json.load\<close> applied to the text
  of the file, \<open>json_dump\<close> is \<^verbatim>\<open>json.dump(_, f, ensure_ascii=False, indent=2)\<close> (every
  \<^typ>\<open>json\<close> value is serialisable), \<open>str_lower\<close> is \<^verbatim>\<open>str.lower\<close> (Unicode lower-casing),
  \<open>py_str\<close> is the text an f-string gives a value that is not a string, and
  \<open>sorted_values\<close> is \<^verbatim>\<open>sorted(set(vs))\<close> on values that are not all strings.
\<close>

record pylib =
  json_load :: "string \<Rightarrow> exn + json"
  json_dump :: "json \<Rightarrow> string"
  str_lower :: "string \<Rightarrow> string"
  py_str :: "json \<Rightarrow> string"
  sorted_values :: "json list \<Rightarrow> exn + json list"

text \<open>
  The backing file \<^verbatim>\<open>quotes.json\<close>: its text when it exists, and whether the process may
  open it for reading and for writing.
\<close>

record disk =
  content :: "string option"
  readable :: bool
  writable :: bool

text \<open>\<^verbatim>\<open>open(QUOTES_FILE, "r", encoding="utf-8")\<close> followed by reading the text.\<close>

definition open_read :: "disk \<Rightarrow> exn + string" where
  "open_read d =
     (case content d of
        None \<Rightarrow> Inl FileNotFoundError
      | Some t \<Rightarrow> if readable d then Inr t else Inl PermissionError)"

text \<open>\<^verbatim>\<open>open(QUOTES_FILE, "w", encoding="utf-8")\<close> followed by writing the text \<open>t\<close>.\<close>

definition open_write :: "string \<Rightarrow> disk \<Rightarrow> exn + disk" where
  "open_write t d =
     (if writable d then Inr (d\<lparr>content := Some t\<rparr>) else Inl PermissionError)"

text \<open>A reply sent with \<^verbatim>\<open>update.message.reply_text\<close>, and the state a handler works on:
  the disk and the replies sent so far, oldest first.\<close>

datatype parse_mode = Plain | Markdown

type_synonym reply = "string \<times> parse_mode"

record world =
  disk_of :: disk
  replies :: "reply list"

definition reply_text :: "string \<Rightarrow> parse_mode \<Rightarrow> world \<Rightarrow> world" where
  "reply_text t m w = w\<lparr>replies := replies w @ [(t, m)]\<rparr>"

text \<open>The inbound event: the caller's id (\<^verbatim>\<open>update.effective_user\<close>, which may be absent),
  the raw text of the message and the argument tokens (\<^verbatim>\<open>context.args\<close>).\<close>

record update =
  effective_user :: "int option"
  message_text :: string
  args :: "string list"

text \<open>The process-wide configuration: \<^verbatim>\<open>OWNER_ID\<close>.\<close>

record config =
  OWNER_ID :: "int option"

section \<open>String operations of Python\<close>

text \<open>\<^verbatim>\<open>sep.join(xs)\<close>.\<close>

fun join :: "string \<Rightarrow> string list \<Rightarrow> string" where
  "join sep [] = []"
| "join sep [x] = x"
| "join sep (x # y # ys) = x @ sep @ join sep (y # ys)"

text \<open>\<^verbatim>\<open>s.find(sep)\<close> and \<^verbatim>\<open>s.rfind(sep)\<close>: the index of the first and of the last
  occurrence, \<open>None\<close> for Python's \<open>-1\<close>.\<close>

fun str_find :: "string \<Rightarrow> string \<Rightarrow> nat option" where
  "str_find sep [] = (if sep = [] then Some 0 else None)"
| "str_find sep (c # cs) =
     (if prefix sep (c # cs) then Some 0 else map_option Suc (str_find sep cs))"

fun str_rfind :: "string \<Rightarrow> string \<Rightarrow> nat option" where
  "str_rfind sep [] = (if sep = [] then Some 0 else None)"
| "str_rfind sep (c # cs) =
     (case str_rfind sep cs of
        Some i \<Rightarrow> Some (Suc i)
      | None \<Rightarrow> if prefix sep (c # cs) then Some 0 else None)"

text \<open>\<^verbatim>\<open>sub in s\<close> on strings.\<close>

definition str_in :: "string \<Rightarrow> string \<Rightarrow> bool" where
  "str_in sub s = (str_find sub s \<noteq> None)"

text \<open>\<^verbatim>\<open>s.partition(sep)\<close> and \<^verbatim>\<open>s.rpartition(sep)\<close> for a non-empty separator (the
  program passes the literals \<^verbatim>\<open>" "\<close> and \<^verbatim>\<open>" - "\<close>).\<close>

definition str_partition :: "string \<Rightarrow> string \<Rightarrow> string \<times> string \<times> string" where
  "str_partition sep s =
     (case str_find sep s of
        None \<Rightarrow> (s, [], [])
      | Some i \<Rightarrow> (take i s, sep, drop (i + length sep) s))"

definition str_rpartition :: "string \<Rightarrow> string \<Rightarrow> string \<times> string \<times> string" where
  "str_rpartition sep s =
     (case str_rfind sep s of
        None \<Rightarrow> ([], [], s)
      | Some i \<Rightarrow> (take i s, sep, drop (i + length sep) s))"

text \<open>\<^verbatim>\<open>s.strip(chars)\<close>: every leading and every trailing character that is in \<open>chars\<close>
  goes.\<close>

definition strip_chars :: "string \<Rightarrow> string \<Rightarrow> string" where
  "strip_chars chars s =
     rev (dropWhile (\<lambda>c. c \<in> set chars) (rev (dropWhile (\<lambda>c. c \<in> set chars) s)))"

text \<open>
  The characters \<^verbatim>\<open>str.isspace\<close> accepts, in UTF-8: U+0009 to U+000D, U+001C to U+0020,
  U+0085, U+00A0, U+1680, U+2000 to U+200A, U+2028, U+2029, U+202F, U+205F, U+3000.
\<close>

definition ws_tokens :: "string list" where
  "ws_tokens =
     [[CHR 0x09], [CHR 0x0A], [CHR 0x0B], [CHR 0x0C], [CHR 0x0D],
      [CHR 0x1C], [CHR 0x1D], [CHR 0x1E], [CHR 0x1F], [CHR 0x20],
      [CHR 0xC2, CHR 0x85], [CHR 0xC2, CHR 0xA0],
      [CHR 0xE1, CHR 0x9A, CHR 0x80],
      [CHR 0xE2, CHR 0x80, CHR 0x80], [CHR 0xE2, CHR 0x80, CHR 0x81],
      [CHR 0xE2, CHR 0x80, CHR 0x82], [CHR 0xE2, CHR 0x80, CHR 0x83],
      [CHR 0xE2, CHR 0x80, CHR 0x84], [CHR 0xE2, CHR 0x80, CHR 0x85],
      [CHR 0xE2, CHR 0x80, CHR 0x86], [CHR 0xE2, CHR 0x80, CHR 0x87],
      [CHR 0xE2, CHR 0x80, CHR 0x88], [CHR 0xE2, CHR 0x80, CHR 0x89],
      [CHR 0xE2, CHR 0x80, CHR 0x8A],
      [CHR 0xE2, CHR 0x80, CHR 0xA8], [CHR 0xE2, CHR 0x80, CHR 0xA9],
      [CHR 0xE2, CHR 0x80, CHR 0xAF],
      [CHR 0xE2, CHR 0x81, CHR 0x9F],
      [CHR 0xE3, CHR 0x80, CHR 0x80]]"

text \<open>Dropping leading tokens for as long as one of them starts the string.\<close>

function strip_leading :: "string list \<Rightarrow> string \<Rightarrow> string" where
  "strip_leading toks s =
     (case find (\<lambda>t. t \<noteq> [] \<and> prefix t s) toks of
        None \<Rightarrow> s
      | Some t \<Rightarrow> strip_leading toks (drop (length t) s))"
  by pat_completeness auto
termination
proof (relation "measure (\<lambda>(toks, s). length s)")
  show "wf (measure (\<lambda>(toks, s). length s))" by simp
next
  fix toks :: "string list" and s t :: string
  assume "find (\<lambda>t. t \<noteq> [] \<and> prefix t s) toks = Some t"
  then have "t \<noteq> []" and "prefix t s"
    by (auto simp: find_Some_iff)
  then have "s \<noteq> []" by auto
  with \<open>t \<noteq> []\<close> show "((toks, drop (length t) s), (toks, s)) \<in> measure (\<lambda>(toks, s). length s)"
    by simp
qed

declare strip_leading.simps [simp del]

text \<open>\<^verbatim>\<open>s.lstrip()\<close>, \<^verbatim>\<open>s.rstrip()\<close> and \<^verbatim>\<open>s.strip()\<close>.\<close>

definition lstrip :: "string \<Rightarrow> string" where
  "lstrip s = strip_leading ws_tokens s"

definition rstrip :: "string \<Rightarrow> string" where
  "rstrip s = rev (strip_leading (map rev ws_tokens) (rev s))"

definition strip :: "string \<Rightarrow> string" where
  "strip s = rstrip (lstrip s)"

section \<open>The quote store\<close>

text \<open>\<^verbatim>\<open>load_quotes\<close>: the \<^verbatim>\<open>try\<close> covers \<^verbatim>\<open>open\<close> and \<^verbatim>\<open>json.load\<close>; only
  \<^verbatim>\<open>FileNotFoundError\<close> and \<^verbatim>\<open>json.JSONDecodeError\<close> have a handler.\<close>

definition load_quotes_try :: "pylib \<Rightarrow> disk \<Rightarrow> exn + json list" where
  "load_quotes_try L d =
     (case open_read d of
        Inl e \<Rightarrow> Inl e
      | Inr t \<Rightarrow>
          (case json_load L t of
             Inl e \<Rightarrow> Inl e
           | Inr data \<Rightarrow> (case data of JArr xs \<Rightarrow> Inr xs | _ \<Rightarrow> Inr [])))"

definition load_quotes :: "pylib \<Rightarrow> disk \<Rightarrow> exn + json list" where
  "load_quotes L d =
     (case load_quotes_try L d of
        Inl FileNotFoundError \<Rightarrow> Inr []
      | Inl JSONDecodeError \<Rightarrow> Inr []
      | r \<Rightarrow> r)"

text \<open>\<^verbatim>\<open>save_quotes\<close>: no handler, a fault of \<^verbatim>\<open>open\<close> goes to the caller.\<close>

definition save_quotes :: "pylib \<Rightarrow> json list \<Rightarrow> disk \<Rightarrow> exn + disk" where
  "save_quotes L quotes d = open_write (json_dump L (JArr quotes)) d"

section \<open>Reading a loaded value\<close>

text \<open>\<^verbatim>\<open>item.get(key, default)\<close>: only a dict has the method.\<close>

fun dict_get :: "json \<Rightarrow> string \<Rightarrow> json \<Rightarrow> exn + json" where
  "dict_get (JObj kvs) key dflt =
     Inr (case map_of kvs key of None \<Rightarrow> dflt | Some v \<Rightarrow> v)"
| "dict_get _ key dflt = Inl AttributeError"

text \<open>\<^verbatim>\<open>item[key]\<close> with a string key: a dict without the key raises \<^verbatim>\<open>KeyError\<close>, any
  other value raises \<^verbatim>\<open>TypeError\<close>.\<close>

fun subscript :: "json \<Rightarrow> string \<Rightarrow> exn + json" where
  "subscript (JObj kvs) key =
     (case map_of kvs key of None \<Rightarrow> Inl KeyError | Some v \<Rightarrow> Inr v)"
| "subscript _ key = Inl TypeError"

text \<open>\<^verbatim>\<open>v.lower()\<close>: only a string has the method.\<close>

fun lower_of :: "pylib \<Rightarrow> json \<Rightarrow> exn + string" where
  "lower_of L (JStr s) = Inr (str_lower L s)"
| "lower_of L _ = Inl AttributeError"

text \<open>A value inside an f-string.\<close>

fun fmt :: "pylib \<Rightarrow> json \<Rightarrow> string" where
  "fmt L (JStr s) = s"
| "fmt L v = py_str L v"

text \<open>\<^verbatim>\<open>random.choice(seq)\<close> on a non-empty sequence; \<open>rnd\<close> is the random source.\<close>

definition choice :: "nat \<Rightarrow> 'a list \<Rightarrow> 'a" where
  "choice rnd xs = xs ! (rnd mod length xs)"

section \<open>The authorization guard\<close>

type_synonym handler = "update \<Rightarrow> world \<Rightarrow> exn + world"

definition owner_not_configured :: string where
  "owner_not_configured = ''Owner not configured on the bot. Contact the admin.''"

text \<open>The text starts with U+274C.\<close>

definition not_authorized :: string where
  "not_authorized =
     [CHR 0xE2, CHR 0x9D, CHR 0x8C] @ '' You are not authorized to use this command.''"

definition owner_only :: "config \<Rightarrow> handler \<Rightarrow> handler" where
  "owner_only cfg func upd w =
     (let user = effective_user upd in
      if OWNER_ID cfg = None then Inr (reply_text owner_not_configured Plain w)
      else if user \<noteq> None \<and> user = OWNER_ID cfg then func upd w
      else Inr (reply_text not_authorized Plain w))"

section \<open>The commands\<close>

text \<open>\<^verbatim>\<open>_find_by_author\<close>: the comprehension stops at the first item that raises.\<close>

fun find_matches :: "pylib \<Rightarrow> string \<Rightarrow> json list \<Rightarrow> exn + json list" where
  "find_matches L q [] = Inr []"
| "find_matches L q (item # rest) =
     (case dict_get item ''author'' (JStr []) of
        Inl e \<Rightarrow> Inl e
      | Inr a \<Rightarrow>
          (case lower_of L a of
             Inl e \<Rightarrow> Inl e
           | Inr al \<Rightarrow>
               (case find_matches L q rest of
                  Inl e \<Rightarrow> Inl e
                | Inr ms \<Rightarrow> Inr (if str_in q al then item # ms else ms))))"

definition find_by_author :: "pylib \<Rightarrow> string \<Rightarrow> json list \<Rightarrow> exn + json list" where
  "find_by_author L author_query quotes =
     (let q = str_lower L author_query in find_matches L q quotes)"

text \<open>The reply for a chosen record: U+201C, the text, U+201D, an empty line, U+2014 and
  the author between asterisks.\<close>

definition render_quote :: "string \<Rightarrow> string \<Rightarrow> string" where
  "render_quote t a =
     [CHR 0xE2, CHR 0x80, CHR 0x9C] @ t @ [CHR 0xE2, CHR 0x80, CHR 0x9D]
       @ [CHR 0x0A, CHR 0x0A] @ [CHR 0xE2, CHR 0x80, CHR 0x94] @ '' *'' @ a @ ''*''"

definition quote_reply :: "pylib \<Rightarrow> json \<Rightarrow> exn + string" where
  "quote_reply L chosen =
     (case subscript chosen ''text'' of
        Inl e \<Rightarrow> Inl e
      | Inr t \<Rightarrow>
          (case subscript chosen ''author'' of
             Inl e \<Rightarrow> Inl e
           | Inr a \<Rightarrow> Inr (render_quote (fmt L t) (fmt L a))))"

definition send_quote :: "pylib \<Rightarrow> json \<Rightarrow> world \<Rightarrow> exn + world" where
  "send_quote L chosen w =
     (case quote_reply L chosen of
        Inl e \<Rightarrow> Inl e
      | Inr t \<Rightarrow> Inr (reply_text t Markdown w))"

definition no_quotes_found :: "string \<Rightarrow> string" where
  "no_quotes_found author_query = ''No quotes found for author matching: '' @ author_query"

definition quote_cmd :: "pylib \<Rightarrow> nat \<Rightarrow> handler" where
  "quote_cmd L rnd upd w =
     (case load_quotes L (disk_of w) of
        Inl e \<Rightarrow> Inl e
      | Inr quotes \<Rightarrow>
          if quotes = [] then Inr (reply_text ''No quotes available yet.'' Plain w)
          else if args upd = [] then send_quote L (choice rnd quotes) w
          else
            (let author_query = strip (join '' '' (args upd)) in
             case find_by_author L author_query quotes of
               Inl e \<Rightarrow> Inl e
             | Inr matches \<Rightarrow>
                 if matches = [] then Inr (reply_text (no_quotes_found author_query) Plain w)
                 else send_quote L (choice rnd matches) w))"

text \<open>The set comprehension of \<^verbatim>\<open>list_authors\<close>: the values in the order of the store. A
  list or a dict cannot be a member of a set.\<close>

fun author_values :: "json list \<Rightarrow> exn + json list" where
  "author_values [] = Inr []"
| "author_values (q # rest) =
     (case dict_get q ''author'' (JStr ''Unknown'') of
        Inl e \<Rightarrow> Inl e
      | Inr (JArr _) \<Rightarrow> Inl TypeError
      | Inr (JObj _) \<Rightarrow> Inl TypeError
      | Inr v \<Rightarrow>
          (case author_values rest of Inl e \<Rightarrow> Inl e | Inr vs \<Rightarrow> Inr (v # vs)))"

fun is_str :: "json \<Rightarrow> bool" where
  "is_str (JStr _) = True"
| "is_str _ = False"

fun str_of :: "json \<Rightarrow> string" where
  "str_of (JStr s) = s"
| "str_of _ = []"

text \<open>\<^verbatim>\<open>sorted(set)\<close>: strings are ordered by code point, which is the order of their
  UTF-8 bytes.\<close>

definition sorted_set :: "pylib \<Rightarrow> json list \<Rightarrow> exn + json list" where
  "sorted_set L vs =
     (if list_all is_str vs then Inr (map JStr (sorted_list_of_set (set (map str_of vs))))
      else sorted_values L vs)"

definition authors_text :: "pylib \<Rightarrow> json list \<Rightarrow> string" where
  "authors_text L authors =
     ''Authors available:'' @ [CHR 0x0A, CHR 0x0A]
       @ join [CHR 0x0A] (map (\<lambda>a. ''- '' @ fmt L a) authors)"

definition list_authors :: "pylib \<Rightarrow> handler" where
  "list_authors L upd w =
     (case load_quotes L (disk_of w) of
        Inl e \<Rightarrow> Inl e
      | Inr quotes \<Rightarrow>
          (case author_values quotes of
             Inl e \<Rightarrow> Inl e
           | Inr vs \<Rightarrow>
               (case sorted_set L vs of
                  Inl e \<Rightarrow> Inl e
                | Inr authors \<Rightarrow>
                    if authors = [] then
                      Inr (reply_text ''No authors found in the database.'' Plain w)
                    else Inr (reply_text (authors_text L authors) Plain w))))"

text \<open>The \<^verbatim>\<open>try\<close> block of \<^verbatim>\<open>add_quote\<close>; every violation raises \<^verbatim>\<open>ValueError\<close>. Its
  first line, \<^verbatim>\<open>full.partition(" ")[2].strip()\<close>, is \<open>payload_of\<close>.\<close>

definition payload_of :: "string \<Rightarrow> string" where
  "payload_of full = strip (snd (snd (str_partition '' '' full)))"

definition add_quote_parse :: "string \<Rightarrow> exn + string \<times> string" where
  "add_quote_parse full =
     (let payload = payload_of full in
      if payload = [] then Inl ValueError
      else if \<not> str_in '' - '' payload then Inl ValueError
      else
        (let (quote_part, sep, author) = str_rpartition '' - '' payload;
             quote_part = strip_chars [CHR 0x27] (strip_chars [CHR 0x22] (strip quote_part));
             author = strip author
         in if quote_part = [] \<or> author = [] then Inl ValueError
            else Inr (quote_part, author)))"

definition invalid_format :: string where
  "invalid_format =
     ''Invalid format. Use:'' @ [CHR 0x0A] @ ''/addquote '' @ [CHR 0x22] @ ''quote text''
       @ [CHR 0x22] @ '' - author''"

text \<open>The text starts with U+2705.\<close>

definition quote_added :: string where
  "quote_added = [CHR 0xE2, CHR 0x9C, CHR 0x85] @ '' Quote added successfully.''"

text \<open>The body of \<^verbatim>\<open>add_quote\<close>, under the decorator.\<close>

definition add_quote_body :: "pylib \<Rightarrow> handler" where
  "add_quote_body L upd w =
     (case add_quote_parse (message_text upd) of
        Inl e \<Rightarrow> Inr (reply_text invalid_format Plain w)
      | Inr (quote_part, author) \<Rightarrow>
          (case load_quotes L (disk_of w) of
             Inl e \<Rightarrow> Inl e
           | Inr quotes \<Rightarrow>
               (case save_quotes L
                       (quotes @ [JObj [(''text'', JStr quote_part), (''author'', JStr author)]])
                       (disk_of w) of
                  Inl e \<Rightarrow> Inl e
                | Inr d \<Rightarrow> Inr (reply_text quote_added Plain (w\<lparr>disk_of := d\<rparr>)))))"

definition add_quote :: "config \<Rightarrow> pylib \<Rightarrow> handler" where
  "add_quote cfg L = owner_only cfg (add_quote_body L)"

section \<open>Sample values\<close>

text \<open>A library instance for closed examples: JSON texts are looked up in a table, and
  lower-casing acts on the ASCII letters.\<close>

definition ascii_lower :: "string \<Rightarrow> string" where
  "ascii_lower s =
     map (\<lambda>c. if CHR ''A'' \<le> c \<and> c \<le> CHR ''Z'' then char_of (of_char c + (32::nat)) else c) s"

definition table_lib :: "(string \<times> json) list \<Rightarrow> pylib" where
  "table_lib tbl =
     \<lparr>json_load = (\<lambda>t. case map_of tbl t of None \<Rightarrow> Inl JSONDecodeError | Some v \<Rightarrow> Inr v),
      json_dump = (\<lambda>v. case find (\<lambda>(t, v'). v' = v) tbl of None \<Rightarrow> ''null'' | Some (t, v') \<Rightarrow> t),
      str_lower = ascii_lower,
      py_str = (\<lambda>v. ''null''),
      sorted_values = (\<lambda>vs. Inl TypeError)\<rparr>"

definition quote_record :: "string \<Rightarrow> string \<Rightarrow> json" where
  "quote_record t a = JObj [(''text'', JStr t), (''author'', JStr a)]"

definition sample_store :: "json list" where
  "sample_store = [quote_record ''T1'' ''Lao Tzu'', quote_record ''T2'' ''Confucius'']"

definition sample_lib :: pylib where
  "sample_lib =
     table_lib
       [(''[]'', JArr []), (''{}'', JObj []), (''store'', JArr sample_store),
        (''store+'', JArr (sample_store @ [quote_record ''Hello world'' ''Jane Doe''])),
        (''authors'',
         JArr [JObj [(''author'', JStr ''B'')], JObj [(''author'', JStr ''A'')],
               JObj [(''author'', JStr ''A'')], JObj [(''text'', JStr ''T'')]])]"

definition file_with :: "string \<Rightarrow> disk" where
  "file_with t = \<lparr>content = Some t, readable = True, writable = True\<rparr>"

definition no_file :: disk where
  "no_file = \<lparr>content = None, readable = True, writable = True\<rparr>"

definition unreadable_file :: disk where
  "unreadable_file = \<lparr>content = Some ''[]'', readable = False, writable = True\<rparr>"

definition world_on :: "disk \<Rightarrow> world" where
  "world_on d = \<lparr>disk_of = d, replies = []\<rparr>"

definition message :: "int option \<Rightarrow> string \<Rightarrow> string list \<Rightarrow> update" where
  "message u t as = \<lparr>effective_user = u, message_text = t, args = as\<rparr>"

section \<open>Notions of the specification\<close>

text \<open>
  The specification's quote record: an object whose \<open>text\<close> and \<open>author\<close> are strings.
\<close>

fun is_quote :: "json \<Rightarrow> bool" where
  "is_quote (JObj kvs) =
     (case (map_of kvs ''text'', map_of kvs ''author'') of
        (Some (JStr t), Some (JStr a)) \<Rightarrow> True
      | _ \<Rightarrow> False)"
| "is_quote _ = False"

fun text_of :: "json \<Rightarrow> string" where
  "text_of (JObj kvs) = (case map_of kvs ''text'' of Some (JStr t) \<Rightarrow> t | _ \<Rightarrow> [])"
| "text_of _ = []"

fun author_of :: "json \<Rightarrow> string" where
  "author_of (JObj kvs) = (case map_of kvs ''author'' of Some (JStr a) \<Rightarrow> a | _ \<Rightarrow> [])"
| "author_of _ = []"

text \<open>
  Following the specification's words, a record whose author field contains the query as
  a case-insensitive substring: after lower-casing both, the query is a contiguous part of
  the author.
\<close>

definition matches_author :: "pylib \<Rightarrow> string \<Rightarrow> json \<Rightarrow> bool" where
  "matches_author L query r = sublist (str_lower L query) (str_lower L (author_of r))"

text \<open>
  The records \<^verbatim>\<open>listauthors\<close> is specified on: an object whose \<open>author\<close>, when it has one,
  is a string. The name it contributes is that string, or \<^verbatim>\<open>Unknown\<close> without the field.
\<close>

fun has_author_name :: "json \<Rightarrow> bool" where
  "has_author_name (JObj kvs) =
     (case map_of kvs ''author'' of None \<Rightarrow> True | Some (JStr a) \<Rightarrow> True | Some _ \<Rightarrow> False)"
| "has_author_name _ = False"

fun author_name :: "json \<Rightarrow> string" where
  "author_name (JObj kvs) =
     (case map_of kvs ''author'' of Some (JStr a) \<Rightarrow> a | _ \<Rightarrow> ''Unknown'')"
| "author_name _ = ''Unknown''"

text \<open>
  Following the specification's words, "any single leading/trailing quote characters
  stripped": at most one quote character, double or single, goes from the front, and at most
  one from the end.
\<close>

definition strip_one_quote :: "string \<Rightarrow> string" where
  "strip_one_quote s =
     (let s1 = (case s of [] \<Rightarrow> [] | c # cs \<Rightarrow> if c \<in> {CHR 0x22, CHR 0x27} then cs else s)
      in if s1 \<noteq> [] \<and> last s1 \<in> {CHR 0x22, CHR 0x27} then butlast s1 else s1)"

section \<open>The authorization guard: results\<close>





section \<open>The quote store: results\<close>

text \<open>
  Claim C10. \<^verbatim>\<open>load_quotes\<close> validates no record: when the text of a readable file parses
  to a JSON array, the elements of that array are returned as they are, whatever they are.
\<close>

theorem load_quotes_returns_array:
  assumes "content d = Some t" and "readable d" and "json_load L t = Inr (JArr xs)"
  shows "load_quotes L d = Inr xs"
  using assms by (simp add: load_quotes_def load_quotes_try_def open_read_def)

theorem load_quotes_returns_array_witness:
  "load_quotes (table_lib [(''mixed'', JArr [JInt 1, JNull, JObj [(''x'', JStr ''y'')]])])
       (file_with ''mixed'')
     = Inr [JInt 1, JNull, JObj [(''x'', JStr ''y'')]]"
  using load_quotes_returns_array [of "file_with ''mixed''" "''mixed''"
      "table_lib [(''mixed'', JArr [JInt 1, JNull, JObj [(''x'', JStr ''y'')]])]"
      "[JInt 1, JNull, JObj [(''x'', JStr ''y'')]]"]
  by (simp add: file_with_def table_lib_def)

text \<open>
  Claim C5, as stated: \<^verbatim>\<open>load_quotes\<close> returns the empty sequence for every state of the
  file, an unreadable one included. It does not: the open of a file that exists and may
  not be read raises an error for which \<^verbatim>\<open>load_quotes\<close> has no handler.
\<close>

theorem load_quotes_unreadable_counterexample:
  "load_quotes sample_lib unreadable_file = Inl PermissionError
   \<and> load_quotes sample_lib unreadable_file \<noteq> Inr []"
  by (simp add: load_quotes_def load_quotes_try_def open_read_def unreadable_file_def)

text \<open>
  Claim C5, amended. \<^verbatim>\<open>load_quotes\<close> returns the empty sequence when the file is absent,
  when its text is malformed JSON and when its text is a JSON value that is not an array;
  it never raises \<^verbatim>\<open>FileNotFoundError\<close> or \<^verbatim>\<open>JSONDecodeError\<close>. Any other fault of the open
  or of the parse goes to the caller.
\<close>

theorem load_quotes_recovers:
  "(content d = None \<longrightarrow> load_quotes L d = Inr [])
   \<and> (content d = Some t \<and> readable d \<and> json_load L t = Inl JSONDecodeError \<longrightarrow>
        load_quotes L d = Inr [])
   \<and> (content d = Some t \<and> readable d \<and> json_load L t = Inr v \<and> (\<forall>xs. v \<noteq> JArr xs) \<longrightarrow>
        load_quotes L d = Inr [])
   \<and> load_quotes L d \<noteq> Inl FileNotFoundError
   \<and> load_quotes L d \<noteq> Inl JSONDecodeError
   \<and> (content d = Some t \<and> \<not> readable d \<longrightarrow> load_quotes L d = Inl PermissionError)
   \<and> (content d = Some t \<and> readable d \<and> json_load L t = Inl e
        \<and> e \<noteq> FileNotFoundError \<and> e \<noteq> JSONDecodeError \<longrightarrow> load_quotes L d = Inl e)"
proof -
  have absent: "content d = None \<Longrightarrow> load_quotes L d = Inr []"
    by (simp add: load_quotes_def load_quotes_try_def open_read_def)
  have malformed: "content d = Some t \<Longrightarrow> readable d \<Longrightarrow> json_load L t = Inl JSONDecodeError
      \<Longrightarrow> load_quotes L d = Inr []"
    by (simp add: load_quotes_def load_quotes_try_def open_read_def)
  have not_array: "content d = Some t \<Longrightarrow> readable d \<Longrightarrow> json_load L t = Inr v
      \<Longrightarrow> \<forall>xs. v \<noteq> JArr xs \<Longrightarrow> load_quotes L d = Inr []"
    by (cases v) (simp_all add: load_quotes_def load_quotes_try_def open_read_def)
  have caught: "load_quotes L d \<noteq> Inl FileNotFoundError \<and> load_quotes L d \<noteq> Inl JSONDecodeError"
    by (auto simp: load_quotes_def split: sum.splits exn.splits)
  have denied: "content d = Some t \<Longrightarrow> \<not> readable d \<Longrightarrow> load_quotes L d = Inl PermissionError"
    by (simp add: load_quotes_def load_quotes_try_def open_read_def)
  have other: "content d = Some t \<Longrightarrow> readable d \<Longrightarrow> json_load L t = Inl e
      \<Longrightarrow> e \<noteq> FileNotFoundError \<Longrightarrow> e \<noteq> JSONDecodeError \<Longrightarrow> load_quotes L d = Inl e"
    by (cases e) (simp_all add: load_quotes_def load_quotes_try_def open_read_def)
  from absent malformed not_array caught denied other show ?thesis by blast
qed

theorem load_quotes_recovers_witness:
  "load_quotes sample_lib no_file = Inr []
   \<and> load_quotes sample_lib (file_with ''{oops'') = Inr []
   \<and> load_quotes sample_lib (file_with ''{}'') = Inr []
   \<and> load_quotes sample_lib unreadable_file = Inl PermissionError
   \<and> load_quotes (sample_lib\<lparr>json_load := \<lambda>t. Inl RecursionError\<rparr>) (file_with ''[[[['')
       = Inl RecursionError"
  using load_quotes_recovers [of no_file sample_lib "''[]''" "JObj []" RecursionError]
    load_quotes_recovers [of "file_with ''{oops''" sample_lib "''{oops''" "JObj []" RecursionError]
    load_quotes_recovers [of "file_with ''{}''" sample_lib "''{}''" "JObj []" RecursionError]
    load_quotes_recovers [of unreadable_file sample_lib "''[]''" "JObj []" RecursionError]
    load_quotes_recovers [of "file_with ''[[[[''" "sample_lib\<lparr>json_load := \<lambda>t. Inl RecursionError\<rparr>"
      "''[[[[''" "JObj []" RecursionError]
  by (simp add: no_file_def file_with_def unreadable_file_def sample_lib_def table_lib_def)

section \<open>Searching a string\<close>

lemma str_rfind_split:
  "str_rfind sep s = Some i \<Longrightarrow> s = take i s @ sep @ drop (i + length sep) s"
proof (induction s arbitrary: i)
  case Nil
  then show ?case by (simp split: if_splits)
next
  case (Cons c cs)
  show ?case
  proof (cases "str_rfind sep cs")
    case None
    with Cons.prems have "prefix sep (c # cs)" "i = 0" by (auto split: if_splits)
    then show ?thesis by (auto simp: prefix_def)
  next
    case (Some j)
    with Cons.prems have "i = Suc j" by simp
    with Cons.IH [OF Some] show ?thesis by simp
  qed
qed

lemma str_rfind_last:
  "s = b @ sep @ a \<Longrightarrow> \<exists>i. str_rfind sep s = Some i \<and> length b \<le> i"
proof (induction s arbitrary: b)
  case Nil
  then show ?case by simp
next
  case (Cons c cs)
  show ?case
  proof (cases b)
    case Nil
    with Cons.prems have "prefix sep (c # cs)" by (simp add: prefix_def)
    with Nil show ?thesis by (simp split: option.splits)
  next
    case (Cons c' b')
    with Cons.prems have "cs = b' @ sep @ a" by simp
    from Cons.IH [OF this] obtain i where "str_rfind sep cs = Some i" "length b' \<le> i" by blast
    with Cons show ?thesis by simp
  qed
qed

lemma str_rfind_bound: "str_rfind sep s = Some i \<Longrightarrow> i \<le> length s"
  by (induction s arbitrary: i) (auto split: if_splits option.splits)

lemma str_find_sublist: "str_find sep s \<noteq> None \<longleftrightarrow> sublist sep s"
  by (induction s) (auto simp: sublist_Cons_right)

lemma str_in_sublist: "str_in sep s \<longleftrightarrow> sublist sep s"
  unfolding str_in_def by (rule str_find_sublist)

lemma str_rfind_sublist: "str_rfind sep s \<noteq> None \<longleftrightarrow> sublist sep s"
  by (induction s) (auto simp: sublist_Cons_right split: option.splits)

lemma strip_chars_Nil: "strip_chars cs [] = []"
  by (simp add: strip_chars_def)

text \<open>\<^verbatim>\<open>rpartition\<close> cuts at the last occurrence: no other cut at the separator has a
  longer head.\<close>

lemma str_rpartition_found:
  assumes "sublist sep s"
  shows "\<exists>b a. str_rpartition sep s = (b, sep, a) \<and> s = b @ sep @ a
           \<and> (\<forall>b' a'. s = b' @ sep @ a' \<longrightarrow> length b' \<le> length b)"
proof -
  from assms obtain i where i: "str_rfind sep s = Some i"
    using str_rfind_sublist [of sep s] by auto
  let ?b = "take i s" and ?a = "drop (i + length sep) s"
  have split: "s = ?b @ sep @ ?a" by (rule str_rfind_split [OF i])
  have len: "length ?b = i" using str_rfind_bound [OF i] by simp
  have part: "str_rpartition sep s = (?b, sep, ?a)"
    by (simp add: str_rpartition_def i)
  have last: "length b' \<le> length ?b" if "s = b' @ sep @ a'" for b' a'
    using str_rfind_last [OF that] i len by simp
  from part split last show ?thesis by blast
qed

section \<open>Adding a quote: the parse\<close>

text \<open>
  Claim C4, as stated: the text before the last separator loses a single leading and a
  single trailing quote character. It does not: \<^verbatim>\<open>strip('"')\<close> and \<^verbatim>\<open>strip("'")\<close> take every
  leading and trailing quote character. The message is
  \<^verbatim>\<open>/addquote ""Hi"" - Bob\<close>; the stored text is \<^verbatim>\<open>Hi\<close>, where removing one quote
  character from each end leaves \<^verbatim>\<open>"Hi"\<close>.
\<close>

theorem add_quote_parse_single_quote_counterexample:
  "add_quote_parse (''/addquote '' @ [CHR 0x22, CHR 0x22] @ ''Hi'' @ [CHR 0x22, CHR 0x22] @ '' - Bob'')
     = Inr (''Hi'', ''Bob'')
   \<and> str_rpartition '' - ''
        (payload_of (''/addquote '' @ [CHR 0x22, CHR 0x22] @ ''Hi'' @ [CHR 0x22, CHR 0x22] @ '' - Bob''))
     = ([CHR 0x22, CHR 0x22] @ ''Hi'' @ [CHR 0x22, CHR 0x22], '' - '', ''Bob'')
   \<and> strip_one_quote (strip ([CHR 0x22, CHR 0x22] @ ''Hi'' @ [CHR 0x22, CHR 0x22]))
     = [CHR 0x22] @ ''Hi'' @ [CHR 0x22]
   \<and> add_quote_parse (''/addquote '' @ [CHR 0x22, CHR 0x22] @ ''Hi'' @ [CHR 0x22, CHR 0x22] @ '' - Bob'')
     \<noteq> Inr (strip_one_quote (strip ([CHR 0x22, CHR 0x22] @ ''Hi'' @ [CHR 0x22, CHR 0x22])),
            strip ''Bob'')"
  by code_simp

text \<open>
  Claim C4, amended. The payload is the message after its first space, trimmed. The parse
  succeeds with text \<open>q\<close> and author \<open>a\<close> exactly when the payload has the separator
  \<^verbatim>\<open>" - "\<close>, and, cut at the last occurrence of it, the part before gives \<open>q\<close> by trimming
  whitespace, then removing every leading and trailing double quote, then every leading and
  trailing single quote, the part after gives \<open>a\<close> by trimming whitespace, and \<open>q\<close> and \<open>a\<close>
  are not empty. Then neither part is empty after trimming.
\<close>

theorem add_quote_parse_result:
  "add_quote_parse full = Inr (q, a) \<longleftrightarrow>
     (\<exists>before after.
        payload_of full = before @ '' - '' @ after
        \<and> (\<forall>b' a'. payload_of full = b' @ '' - '' @ a' \<longrightarrow> length b' \<le> length before)
        \<and> q = strip_chars [CHR 0x27] (strip_chars [CHR 0x22] (strip before))
        \<and> a = strip after
        \<and> q \<noteq> [] \<and> a \<noteq> []
        \<and> strip before \<noteq> [] \<and> strip after \<noteq> [])"
  (is "?lhs \<longleftrightarrow> ?rhs")
proof
  assume lhs: ?lhs
  then have ne: "payload_of full \<noteq> []" and sub: "sublist '' - '' (payload_of full)"
    by (auto simp: add_quote_parse_def Let_def str_in_sublist split: if_splits)
  from str_rpartition_found [OF sub]
  obtain b c where part: "str_rpartition '' - '' (payload_of full) = (b, '' - '', c)"
    and split: "payload_of full = b @ '' - '' @ c"
    and last: "\<And>b' a'. payload_of full = b' @ '' - '' @ a' \<Longrightarrow> length b' \<le> length b"
    by blast
  from lhs ne sub part
  have q: "q = strip_chars [CHR 0x27] (strip_chars [CHR 0x22] (strip b))" and a: "a = strip c"
    and nonempty: "q \<noteq> []" "a \<noteq> []"
    by (auto simp: add_quote_parse_def Let_def str_in_sublist split: if_splits)
  from q nonempty(1) have "strip b \<noteq> []"
    by (auto simp: strip_chars_Nil)
  with split last q a nonempty show ?rhs by blast
next
  assume ?rhs
  then obtain before after where
    split: "payload_of full = before @ '' - '' @ after"
    and last: "\<And>b' a'. payload_of full = b' @ '' - '' @ a' \<Longrightarrow> length b' \<le> length before"
    and q: "q = strip_chars [CHR 0x27] (strip_chars [CHR 0x22] (strip before))"
    and a: "a = strip after" and ne: "q \<noteq> []" "a \<noteq> []"
    by blast
  from split have sub: "sublist '' - '' (payload_of full)"
    by (metis sublist_appendI)
  from str_rpartition_found [OF sub]
  obtain b c where part: "str_rpartition '' - '' (payload_of full) = (b, '' - '', c)"
    and split': "payload_of full = b @ '' - '' @ c"
    and last': "\<And>b' a'. payload_of full = b' @ '' - '' @ a' \<Longrightarrow> length b' \<le> length b"
    by blast
  from last [OF split'] last' [OF split] have "length before = length b" by simp
  with split split' have "before = b" "after = c" by auto
  moreover from split have "payload_of full \<noteq> []" by auto
  ultimately show ?lhs
    using sub part q a ne
    by (simp add: add_quote_parse_def Let_def str_in_sublist)
qed

theorem add_quote_parse_result_witness:
  "add_quote_parse (''/addquote '' @ [CHR 0x22] @ ''Hello - world'' @ [CHR 0x22] @ '' - Jane Doe'')
     = Inr (''Hello - world'', ''Jane Doe'')
   \<and> (\<exists>before after.
        payload_of (''/addquote '' @ [CHR 0x22] @ ''Hello - world'' @ [CHR 0x22] @ '' - Jane Doe'')
          = before @ '' - '' @ after
        \<and> ''Hello - world'' = strip_chars [CHR 0x27] (strip_chars [CHR 0x22] (strip before))
        \<and> ''Jane Doe'' = strip after)"
proof -
  have "add_quote_parse (''/addquote '' @ [CHR 0x22] @ ''Hello - world'' @ [CHR 0x22] @ '' - Jane Doe'')
     = Inr (''Hello - world'', ''Jane Doe'')"
    by code_simp
  with add_quote_parse_result [of
      "''/addquote '' @ [CHR 0x22] @ ''Hello - world'' @ [CHR 0x22] @ '' - Jane Doe''"
      "''Hello - world''" "''Jane Doe''"]
  show ?thesis by blast
qed

text \<open>
  Claim C2. When the configured owner sends an \<^verbatim>\<open>addquote\<close> whose payload is empty, or has
  no separator \<^verbatim>\<open>" - "\<close>, or whose quote text (the part before the last separator, trimmed
  and without its outer quote characters; empty in particular when that part is empty after
  trimming) or author (the part after it, trimmed) is empty, the only effect is the
  format-hint reply: the file is as it was.
\<close>

theorem add_quote_rejects:
  assumes "OWNER_ID cfg = Some oid" and "effective_user upd = Some oid"
    and "payload_of (message_text upd) = []
         \<or> \<not> sublist '' - '' (payload_of (message_text upd))
         \<or> strip (fst (str_rpartition '' - '' (payload_of (message_text upd)))) = []
         \<or> strip_chars [CHR 0x27] (strip_chars [CHR 0x22]
              (strip (fst (str_rpartition '' - '' (payload_of (message_text upd)))))) = []
         \<or> strip (snd (snd (str_rpartition '' - '' (payload_of (message_text upd))))) = []"
  shows "add_quote cfg L upd w = Inr (w\<lparr>replies := replies w @ [(invalid_format, Plain)]\<rparr>)"
proof -
  from assms(3) have "add_quote_parse (message_text upd) = Inl ValueError"
    by (auto simp: add_quote_parse_def Let_def str_in_sublist strip_chars_Nil split: prod.splits)
  with assms(1,2) show ?thesis
    by (simp add: add_quote_def owner_only_def add_quote_body_def reply_text_def)
qed

theorem add_quote_rejects_witness:
  "add_quote \<lparr>OWNER_ID = Some 7\<rparr> sample_lib (message (Some 7) ''/addquote NoSeparatorHere'' [])
       (world_on (file_with ''store''))
     = Inr \<lparr>disk_of = file_with ''store'', replies = [(invalid_format, Plain)]\<rparr>
   \<and> add_quote \<lparr>OWNER_ID = Some 7\<rparr> sample_lib (message (Some 7) ''/addquote'' [])
       (world_on (file_with ''store''))
     = Inr \<lparr>disk_of = file_with ''store'', replies = [(invalid_format, Plain)]\<rparr>
   \<and> add_quote \<lparr>OWNER_ID = Some 7\<rparr> sample_lib
       (message (Some 7) (''/addquote '' @ [CHR 0x22, CHR 0x22] @ '' - Bob'') [])
       (world_on (file_with ''store''))
     = Inr \<lparr>disk_of = file_with ''store'', replies = [(invalid_format, Plain)]\<rparr>"
proof -
  have v1: "\<not> sublist '' - '' (payload_of ''/addquote NoSeparatorHere'')" by code_simp
  have v2: "payload_of ''/addquote'' = []" by code_simp
  have v3: "strip_chars [CHR 0x27] (strip_chars [CHR 0x22]
      (strip (fst (str_rpartition '' - ''
         (payload_of (''/addquote '' @ [CHR 0x22, CHR 0x22] @ '' - Bob'')))))) = []"
    by code_simp
  show ?thesis
    using add_quote_rejects [of "\<lparr>OWNER_ID = Some 7\<rparr>" 7
        "message (Some 7) ''/addquote NoSeparatorHere'' []" sample_lib "world_on (file_with ''store'')"]
      add_quote_rejects [of "\<lparr>OWNER_ID = Some 7\<rparr>" 7
        "message (Some 7) ''/addquote'' []" sample_lib "world_on (file_with ''store'')"]
      add_quote_rejects [of "\<lparr>OWNER_ID = Some 7\<rparr>" 7
        "message (Some 7) (''/addquote '' @ [CHR 0x22, CHR 0x22] @ '' - Bob'') []" sample_lib
        "world_on (file_with ''store'')"]
      v1 v2 v3
    by (simp add: message_def world_on_def)
qed

section \<open>Looking a quote up by author\<close>

lemma is_quote_author:
  "is_quote r \<Longrightarrow> dict_get r ''author'' (JStr []) = Inr (JStr (author_of r))"
  by (cases r) (auto split: option.splits json.splits)

lemma is_quote_subscript:
  "is_quote r \<Longrightarrow> subscript r ''text'' = Inr (JStr (text_of r))
     \<and> subscript r ''author'' = Inr (JStr (author_of r))"
  by (cases r) (auto split: option.splits json.splits)

lemma find_matches_quotes:
  "list_all is_quote qs \<Longrightarrow>
     find_matches L ql qs = Inr (filter (\<lambda>r. sublist ql (str_lower L (author_of r))) qs)"
  by (induction qs) (simp_all add: is_quote_author str_in_sublist)

lemma quote_reply_quote:
  "is_quote r \<Longrightarrow> quote_reply L r = Inr (render_quote (text_of r) (author_of r))"
  by (simp add: quote_reply_def is_quote_subscript)

lemma choice_member: "xs \<noteq> [] \<Longrightarrow> choice rnd xs \<in> set xs"
  by (simp add: choice_def)

text \<open>
  Claim C1, as stated: with arguments, an empty candidate set, the empty store included,
  is answered "No quotes found for author matching: {query}". It is not when the store is
  empty: \<^verbatim>\<open>quote_cmd\<close> tests the loaded store before it looks at the arguments, and
  \<^verbatim>\<open>/quote ZZZ\<close> on the store \<^verbatim>\<open>[]\<close> is answered "No quotes available yet.".
\<close>

theorem quote_cmd_empty_store_counterexample:
  "load_quotes sample_lib (file_with ''[]'') = Inr []
   \<and> filter (matches_author sample_lib (strip (join '' '' [''ZZZ'']))) [] = []
   \<and> quote_cmd sample_lib 0 (message (Some 8) ''/quote ZZZ'' [''ZZZ'']) (world_on (file_with ''[]''))
     = Inr \<lparr>disk_of = file_with ''[]'', replies = [(''No quotes available yet.'', Plain)]\<rparr>
   \<and> quote_cmd sample_lib 0 (message (Some 8) ''/quote ZZZ'' [''ZZZ'']) (world_on (file_with ''[]''))
     \<noteq> Inr \<lparr>disk_of = file_with ''[]'',
             replies = [(''No quotes found for author matching: ZZZ'', Plain)]\<rparr>"
  by (simp add: quote_cmd_def load_quotes_def load_quotes_try_def open_read_def file_with_def
      sample_lib_def table_lib_def world_on_def message_def reply_text_def)

text \<open>
  Claim C1, amended. For \<^verbatim>\<open>/quote\<close> with arguments on a loaded store of quote records: the
  query is the arguments joined by spaces (and trimmed); the candidates are exactly the
  records whose author contains the query as a case-insensitive substring, in the order of
  the store; an empty store is answered "No quotes available yet."; a store that is not
  empty with no candidate is answered "No quotes found for author matching: " and the
  query; otherwise the reply renders the text and the author of one of the candidates, in
  Markdown.
\<close>

theorem quote_cmd_by_author:
  assumes "args upd \<noteq> []" and "load_quotes L (disk_of w) = Inr qs" and "list_all is_quote qs"
  shows "let query = strip (join '' '' (args upd));
             candidates = filter (matches_author L query) qs
         in find_by_author L query qs = Inr candidates
            \<and> (qs = [] \<longrightarrow>
                 quote_cmd L rnd upd w = Inr (reply_text ''No quotes available yet.'' Plain w))
            \<and> (qs \<noteq> [] \<and> candidates = [] \<longrightarrow>
                 quote_cmd L rnd upd w
                   = Inr (reply_text (''No quotes found for author matching: '' @ query) Plain w))
            \<and> (candidates \<noteq> [] \<longrightarrow>
                 (\<exists>r \<in> set candidates.
                    quote_cmd L rnd upd w
                      = Inr (reply_text (render_quote (text_of r) (author_of r)) Markdown w)))"
proof -
  define query where "query = strip (join '' '' (args upd))"
  define candidates where "candidates = filter (matches_author L query) qs"
  have found: "find_by_author L query qs = Inr candidates"
    using find_matches_quotes [OF assms(3)]
    by (simp add: find_by_author_def candidates_def matches_author_def [abs_def])
  have empty: "quote_cmd L rnd upd w = Inr (reply_text ''No quotes available yet.'' Plain w)"
    if "qs = []"
    using that assms(2) by (simp add: quote_cmd_def)
  have none: "quote_cmd L rnd upd w
      = Inr (reply_text (''No quotes found for author matching: '' @ query) Plain w)"
    if "qs \<noteq> []" "candidates = []"
    using that assms(1,2) found
    by (simp add: quote_cmd_def query_def [symmetric] no_quotes_found_def)
  have some: "\<exists>r \<in> set candidates.
      quote_cmd L rnd upd w = Inr (reply_text (render_quote (text_of r) (author_of r)) Markdown w)"
    if ne: "candidates \<noteq> []"
  proof -
    let ?r = "choice rnd candidates"
    from ne have mem: "?r \<in> set candidates" by (rule choice_member)
    then have "?r \<in> set qs" by (simp add: candidates_def)
    with assms(3) have "is_quote ?r" by (simp add: list_all_iff)
    then have "quote_reply L ?r = Inr (render_quote (text_of ?r) (author_of ?r))"
      by (rule quote_reply_quote)
    moreover from ne have "qs \<noteq> []" by (auto simp: candidates_def)
    ultimately have "quote_cmd L rnd upd w
        = Inr (reply_text (render_quote (text_of ?r) (author_of ?r)) Markdown w)"
      using ne assms(1,2) found
      by (simp add: quote_cmd_def query_def [symmetric] send_quote_def)
    with mem show ?thesis by blast
  qed
  from found empty none some show ?thesis
    unfolding Let_def query_def [symmetric] candidates_def [symmetric] by blast
qed

theorem quote_cmd_by_author_witness:
  "quote_cmd sample_lib 5 (message (Some 8) ''/quote Lao'' [''Lao'']) (world_on (file_with ''store''))
     = Inr \<lparr>disk_of = file_with ''store'', replies = [(render_quote ''T1'' ''Lao Tzu'', Markdown)]\<rparr>
   \<and> quote_cmd sample_lib 5 (message (Some 8) ''/quote ZZZ'' [''ZZZ'']) (world_on (file_with ''store''))
     = Inr \<lparr>disk_of = file_with ''store'',
            replies = [(''No quotes found for author matching: ZZZ'', Plain)]\<rparr>"
proof -
  let ?lao = "message (Some 8) ''/quote Lao'' [''Lao'']"
  let ?zzz = "message (Some 8) ''/quote ZZZ'' [''ZZZ'']"
  let ?w = "world_on (file_with ''store'')"
  have loaded: "load_quotes sample_lib (disk_of ?w) = Inr sample_store"
    by (simp add: load_quotes_def load_quotes_try_def open_read_def file_with_def
        sample_lib_def table_lib_def world_on_def)
  have typed: "list_all is_quote sample_store"
    by (simp add: sample_store_def quote_record_def)
  have nonempty: "sample_store \<noteq> []" by (simp add: sample_store_def)
  have args_lao: "args ?lao \<noteq> []" and args_zzz: "args ?zzz \<noteq> []"
    by (simp_all add: message_def)
  have lao: "filter (matches_author sample_lib (strip (join '' '' (args ?lao)))) sample_store
      = [quote_record ''T1'' ''Lao Tzu'']"
    by code_simp
  have zzz: "filter (matches_author sample_lib ''ZZZ'') sample_store = []"
    by code_simp
  have query: "strip (join '' '' (args ?zzz)) = ''ZZZ''" by code_simp
  from quote_cmd_by_author [OF args_lao loaded typed, of 5, unfolded Let_def lao]
  have "\<exists>r \<in> set [quote_record ''T1'' ''Lao Tzu''].
      quote_cmd sample_lib 5 ?lao ?w = Inr (reply_text (render_quote (text_of r) (author_of r)) Markdown ?w)"
    by blast
  then have first: "quote_cmd sample_lib 5 ?lao ?w
      = Inr \<lparr>disk_of = file_with ''store'', replies = [(render_quote ''T1'' ''Lao Tzu'', Markdown)]\<rparr>"
    by (simp add: quote_record_def reply_text_def world_on_def)
  from quote_cmd_by_author [OF args_zzz loaded typed, of 5, unfolded Let_def query] zzz nonempty
  have "quote_cmd sample_lib 5 ?zzz ?w
      = Inr (reply_text (''No quotes found for author matching: '' @ ''ZZZ'') Plain ?w)"
    by blast
  then have second: "quote_cmd sample_lib 5 ?zzz ?w
      = Inr \<lparr>disk_of = file_with ''store'',
             replies = [(''No quotes found for author matching: ZZZ'', Plain)]\<rparr>"
    by (simp add: reply_text_def world_on_def)
  from first second show ?thesis by simp
qed

section \<open>Listing the authors\<close>

lemma author_values_names:
  "list_all has_author_name qs \<Longrightarrow> author_values qs = Inr (map (\<lambda>r. JStr (author_name r)) qs)"
proof (induction qs)
  case Nil
  then show ?case by simp
next
  case (Cons r rs)
  then have "has_author_name r" by simp
  then have "dict_get r ''author'' (JStr ''Unknown'') = Inr (JStr (author_name r))"
    by (cases r) (auto split: option.splits json.splits)
  with Cons show ?case by simp
qed

lemma sorted_set_names:
  "sorted_set L (map (\<lambda>r. JStr (author_name r)) qs)
     = Inr (map JStr (sorted_list_of_set (author_name ` set qs)))"
proof -
  have "list_all is_str (map (\<lambda>r. JStr (author_name r)) qs)"
    by (simp add: list_all_iff)
  moreover have "map str_of (map (\<lambda>r. JStr (author_name r)) qs) = map author_name qs"
    by simp
  ultimately show ?thesis
    by (simp add: sorted_set_def del: map_map)
qed

lemma authors_text_names:
  "authors_text L (map JStr names)
     = ''Authors available:'' @ [CHR 0x0A, CHR 0x0A] @ join [CHR 0x0A] (map (\<lambda>a. ''- '' @ a) names)"
  by (simp add: authors_text_def comp_def)

text \<open>
  Claim C7. For a loaded store whose records are objects with a string author or none,
  \<^verbatim>\<open>listauthors\<close> replies with the distinct author names, \<^verbatim>\<open>Unknown\<close> standing for a missing
  author: the names are sorted, none occurs twice, and they are the names of the store; the
  reply has one line \<^verbatim>\<open>- name\<close> for each under the heading, and is "No authors found in the
  database." when there is none.
\<close>

theorem list_authors_sorted_distinct:
  assumes "load_quotes L (disk_of w) = Inr qs" and "list_all has_author_name qs"
  shows "let authors = sorted_list_of_set (author_name ` set qs)
         in sorted authors \<and> distinct authors \<and> set authors = author_name ` set qs
            \<and> list_authors L upd w
                = Inr (reply_text
                    (if authors = [] then ''No authors found in the database.''
                     else ''Authors available:'' @ [CHR 0x0A, CHR 0x0A]
                            @ join [CHR 0x0A] (map (\<lambda>a. ''- '' @ a) authors))
                    Plain w)"
proof -
  define authors where "authors = sorted_list_of_set (author_name ` set qs)"
  have props: "sorted authors" "distinct authors" "set authors = author_name ` set qs"
    by (simp_all add: authors_def)
  have step: "list_authors L upd w
      = (if authors = [] then Inr (reply_text ''No authors found in the database.'' Plain w)
         else Inr (reply_text (authors_text L (map JStr authors)) Plain w))"
    using assms(1) author_values_names [OF assms(2)] sorted_set_names [of L qs]
    by (simp add: list_authors_def authors_def [symmetric])
  have "list_authors L upd w
      = Inr (reply_text
          (if authors = [] then ''No authors found in the database.''
           else ''Authors available:'' @ [CHR 0x0A, CHR 0x0A]
                  @ join [CHR 0x0A] (map (\<lambda>a. ''- '' @ a) authors))
          Plain w)"
  proof (cases "authors = []")
    case True
    with step show ?thesis by simp
  next
    case False
    with step have "list_authors L upd w
        = Inr (reply_text (authors_text L (map JStr authors)) Plain w)"
      by simp
    also have "authors_text L (map JStr authors)
        = ''Authors available:'' @ [CHR 0x0A, CHR 0x0A]
            @ join [CHR 0x0A] (map (\<lambda>a. ''- '' @ a) authors)"
      by (rule authors_text_names)
    finally show ?thesis using False by (simp only: if_False)
  qed
  with props show ?thesis
    unfolding Let_def authors_def [symmetric] by simp
qed

theorem list_authors_sorted_distinct_witness:
  "list_authors sample_lib (message (Some 8) ''/listauthors'' []) (world_on (file_with ''authors''))
     = Inr \<lparr>disk_of = file_with ''authors'',
            replies = [(''Authors available:'' @ [CHR 0x0A, CHR 0x0A] @ ''- A'' @ [CHR 0x0A]
                          @ ''- B'' @ [CHR 0x0A] @ ''- Unknown'', Plain)]\<rparr>
   \<and> list_authors sample_lib (message (Some 8) ''/listauthors'' []) (world_on no_file)
     = Inr \<lparr>disk_of = no_file, replies = [(''No authors found in the database.'', Plain)]\<rparr>"
proof -
  let ?store = "[JObj [(''author'', JStr ''B'')], JObj [(''author'', JStr ''A'')],
               JObj [(''author'', JStr ''A'')], JObj [(''text'', JStr ''T'')]]"
  have loaded: "load_quotes sample_lib (disk_of (world_on (file_with ''authors''))) = Inr ?store"
    by (simp add: load_quotes_def load_quotes_try_def open_read_def file_with_def
        sample_lib_def table_lib_def world_on_def)
  have typed: "list_all has_author_name ?store" by simp
  have names: "sorted_list_of_set (author_name ` set ?store) = [''A'', ''B'', ''Unknown'']"
    by code_simp
  have absent: "load_quotes sample_lib (disk_of (world_on no_file)) = Inr []"
    by (simp add: load_quotes_def load_quotes_try_def open_read_def no_file_def world_on_def)
  from list_authors_sorted_distinct [of sample_lib "world_on (file_with ''authors'')" ?store
      "message (Some 8) ''/listauthors'' []"] loaded typed names
  have first: "list_authors sample_lib (message (Some 8) ''/listauthors'' [])
      (world_on (file_with ''authors''))
     = Inr \<lparr>disk_of = file_with ''authors'',
            replies = [(''Authors available:'' @ [CHR 0x0A, CHR 0x0A] @ ''- A'' @ [CHR 0x0A]
                          @ ''- B'' @ [CHR 0x0A] @ ''- Unknown'', Plain)]\<rparr>"
    by (simp add: Let_def reply_text_def world_on_def)
  from list_authors_sorted_distinct [of sample_lib "world_on no_file" "[]"
      "message (Some 8) ''/listauthors'' []"] absent
  have second: "list_authors sample_lib (message (Some 8) ''/listauthors'' []) (world_on no_file)
     = Inr \<lparr>disk_of = no_file, replies = [(''No authors found in the database.'', Plain)]\<rparr>"
    by (simp add: Let_def reply_text_def world_on_def)
  from first second show ?thesis by simp
qed

section \<open>Adding a quote: the store\<close>





end
